theory Spec2Isabelle
  imports Complex_Main "HOL-Library.List_Lexorder" "HOL-Library.Char_ord" "HOL-Library.Multiset"
begin

section \<open>Strings, objects and numbers of the host language\<close>

text \<open>
  A text is a list of characters. \<open>toLowerCase\<close> maps the letters A to Z to a to z
  and leaves every other character as it is.

  An object that the code uses as a table has the properties that the code wrote, its own
  keys, kept as an association list in the order of their creation. It also inherits the
  properties of \<open>Object.prototype\<close>: reading an inherited name from an object without an
  own property of that name yields a built-in function or object, which is truthy and is
  not a number.

  A number is a double. Its finite values are rationals, \<open>NaN\<close> and the two infinities
  are separate values of \<open>jsnum\<close>, and zero carries no sign. An arithmetic operation of
  the scoring function yields the exact result rounded to the nearest double, ties to the
  even mantissa.
\<close>

definition upper_letters :: string where
  "upper_letters = ''ABCDEFGHIJKLMNOPQRSTUVWXYZ''"

definition lower_letters :: string where
  "lower_letters = ''abcdefghijklmnopqrstuvwxyz''"

definition digit_chars :: string where
  "digit_chars = ''0123456789''"

definition toLowerCase_char :: "char \<Rightarrow> char" where
  "toLowerCase_char c =
     (case map_of (zip upper_letters lower_letters) c of Some l \<Rightarrow> l | None \<Rightarrow> c)"

definition toLowerCase :: "string \<Rightarrow> string" where
  "toLowerCase s = map toLowerCase_char s"

fun starts_with :: "string \<Rightarrow> string \<Rightarrow> bool" where
  "starts_with s [] = True"
| "starts_with [] (p # ps) = False"
| "starts_with (c # cs) (p # ps) = (c = p \<and> starts_with cs ps)"

text \<open>\<open>s.includes(sub)\<close> on strings: \<open>sub\<close> occurs in \<open>s\<close> as a contiguous run.\<close>

fun str_includes :: "string \<Rightarrow> string \<Rightarrow> bool" where
  "str_includes [] sub = (sub = [])"
| "str_includes (c # cs) sub = (starts_with (c # cs) sub \<or> str_includes cs sub)"

text \<open>The names that every plain object inherits from \<open>Object.prototype\<close>.\<close>

definition object_prototype_names :: "string list" where
  "object_prototype_names =
     [''constructor'', ''__proto__'', ''hasOwnProperty'', ''isPrototypeOf'',
      ''propertyIsEnumerable'', ''toLocaleString'', ''toString'', ''valueOf'',
      ''__defineGetter__'', ''__defineSetter__'', ''__lookupGetter__'',
      ''__lookupSetter__'']"

definition inherited :: "string \<Rightarrow> bool" where
  "inherited k = (k \<in> set object_prototype_names)"

datatype error = TypeError

datatype jsnum = Fin rat | PosInf | NegInf | NaN

fun js_neg :: "jsnum \<Rightarrow> jsnum" where
  "js_neg (Fin a) = Fin (- a)"
| "js_neg PosInf = NegInf"
| "js_neg NegInf = PosInf"
| "js_neg NaN = NaN"

text \<open>The exact sum, difference, product and quotient. The report adds scores, which are
  integers, and divides by a length; there these exact results are used.\<close>

fun js_add :: "jsnum \<Rightarrow> jsnum \<Rightarrow> jsnum" where
  "js_add NaN y = NaN"
| "js_add x NaN = NaN"
| "js_add (Fin a) (Fin b) = Fin (a + b)"
| "js_add PosInf NegInf = NaN"
| "js_add NegInf PosInf = NaN"
| "js_add PosInf y = PosInf"
| "js_add NegInf y = NegInf"
| "js_add (Fin a) y = y"

definition js_sub :: "jsnum \<Rightarrow> jsnum \<Rightarrow> jsnum" where
  "js_sub x y = js_add x (js_neg y)"

text \<open>The sign of a number, for products and quotients with an infinity.\<close>

fun js_sign :: "jsnum \<Rightarrow> int" where
  "js_sign (Fin a) = (if a < 0 then - 1 else if a = 0 then 0 else 1)"
| "js_sign PosInf = 1"
| "js_sign NegInf = - 1"
| "js_sign NaN = 0"

definition js_inf :: "int \<Rightarrow> jsnum" where
  "js_inf s = (if s < 0 then NegInf else PosInf)"

fun js_mul :: "jsnum \<Rightarrow> jsnum \<Rightarrow> jsnum" where
  "js_mul NaN y = NaN"
| "js_mul x NaN = NaN"
| "js_mul (Fin a) (Fin b) = Fin (a * b)"
| "js_mul x y = (if js_sign x * js_sign y = 0 then NaN else js_inf (js_sign x * js_sign y))"

text \<open>Division: a finite number over zero is an infinity, and zero over zero is \<open>NaN\<close>.\<close>

fun js_div :: "jsnum \<Rightarrow> jsnum \<Rightarrow> jsnum" where
  "js_div NaN y = NaN"
| "js_div x NaN = NaN"
| "js_div (Fin a) (Fin b) =
     (if b = 0 then (if a = 0 then NaN else js_inf (js_sign (Fin a))) else Fin (a / b))"
| "js_div (Fin a) y = Fin 0"
| "js_div x (Fin b) = js_inf (js_sign x * (if b < 0 then - 1 else 1))"
| "js_div x y = NaN"

text \<open>\<open>Math.round\<close>: the nearest integer, halves upwards; not a number stays so.\<close>

fun js_round :: "jsnum \<Rightarrow> jsnum" where
  "js_round (Fin a) = Fin (of_int (round a))"
| "js_round x = x"

text \<open>\<open>x >= c\<close> and \<open>x > c\<close> against a finite constant; every comparison with
  \<open>NaN\<close> is false.\<close>

fun js_ge :: "jsnum \<Rightarrow> rat \<Rightarrow> bool" where
  "js_ge (Fin a) c = (c \<le> a)"
| "js_ge PosInf c = True"
| "js_ge NegInf c = False"
| "js_ge NaN c = False"

fun js_gt :: "jsnum \<Rightarrow> rat \<Rightarrow> bool" where
  "js_gt (Fin a) c = (c < a)"
| "js_gt PosInf c = True"
| "js_gt NegInf c = False"
| "js_gt NaN c = False"

text \<open>\<open>Math.min\<close> and \<open>Math.max\<close> of two numbers are \<open>NaN\<close> when one of them is.
  \<open>Math.max(...xs)\<close> of no argument at all is minus infinity.\<close>

fun js_min :: "jsnum \<Rightarrow> jsnum \<Rightarrow> jsnum" where
  "js_min NaN y = NaN"
| "js_min x NaN = NaN"
| "js_min NegInf y = NegInf"
| "js_min x NegInf = NegInf"
| "js_min PosInf y = y"
| "js_min x PosInf = x"
| "js_min (Fin a) (Fin b) = Fin (min a b)"

fun js_max2 :: "jsnum \<Rightarrow> jsnum \<Rightarrow> jsnum" where
  "js_max2 NaN y = NaN"
| "js_max2 x NaN = NaN"
| "js_max2 PosInf y = PosInf"
| "js_max2 x PosInf = PosInf"
| "js_max2 NegInf y = y"
| "js_max2 x NegInf = x"
| "js_max2 (Fin a) (Fin b) = Fin (max a b)"

definition js_max :: "jsnum list \<Rightarrow> jsnum" where
  "js_max xs = fold (\<lambda>x m. js_max2 m x) xs NegInf"

text \<open>\<open>xs.reduce((a, b) => a + b, 0)\<close> over scores.\<close>

definition js_sum :: "jsnum list \<Rightarrow> jsnum" where
  "js_sum xs = fold (\<lambda>b a. js_add a b) xs (Fin 0)"

subsection \<open>Rounding to the nearest double\<close>

text \<open>
  A positive rational \<open>p / q\<close> with \<open>2^e \<le> p / q < 2^(e + 1)\<close> lies between doubles
  that are multiples of \<open>2^(e - 52)\<close>, and of \<open>2^(- 1074)\<close> below the normal range. It is
  rounded to the nearest multiple, a tie to the even one; a result that reaches
  \<open>2^1024\<close> is an infinity.
\<close>

function bit_length :: "int \<Rightarrow> nat" where
  "bit_length n = (if n \<le> 0 then 0 else Suc (bit_length (n div 2)))"
  by pat_completeness auto
termination
  by (relation "measure nat") auto

declare bit_length.simps [simp del]

text \<open>\<open>scale p q e\<close> is the fraction \<open>p / (q * 2^e)\<close> as a pair of integers.\<close>

definition scale :: "int \<Rightarrow> int \<Rightarrow> int \<Rightarrow> int \<times> int" where
  "scale p q e = (if 0 \<le> e then (p, q * 2 ^ nat e) else (p * 2 ^ nat (- e), q))"

text \<open>The exponent \<open>e\<close> with \<open>2^e \<le> p / q < 2^(e + 1)\<close>, for positive \<open>p\<close> and \<open>q\<close>.\<close>

definition ilog2 :: "int \<Rightarrow> int \<Rightarrow> int" where
  "ilog2 p q =
     (let d = int (bit_length p) - int (bit_length q);
          (a, b) = scale p q d
      in if b \<le> a then d else d - 1)"

text \<open>The integer nearest to \<open>a / b\<close>, a tie to the even one.\<close>

definition round_half_even :: "int \<Rightarrow> int \<Rightarrow> int" where
  "round_half_even a b =
     (let f = a div b; r = a mod b
      in if 2 * r < b then f else if b < 2 * r then f + 1 else if even f then f else f + 1)"

definition fl :: "rat \<Rightarrow> jsnum" where
  "fl x =
     (if x = 0 then Fin 0
      else let (p, q) = quotient_of \<bar>x\<bar>;
               e = max (ilog2 p q - 52) (- 1074);
               (a, b) = scale p q e;
               m = round_half_even a b;
               (c, d) = scale (m * (if x < 0 then - 1 else 1)) 1 (- e)
           in if 971 < e \<or> (e = 971 \<and> m = 2 ^ 53) then (if x < 0 then NegInf else PosInf)
              else Fin (of_int c / of_int d))"

fun js_fl :: "jsnum \<Rightarrow> jsnum" where
  "js_fl (Fin a) = fl a"
| "js_fl x = x"

text \<open>The operators \<open>+\<close>, \<open>*\<close> and \<open>/\<close> on doubles.\<close>

definition dbl_add :: "jsnum \<Rightarrow> jsnum \<Rightarrow> jsnum" where
  "dbl_add x y = js_fl (js_add x y)"

definition dbl_mul :: "jsnum \<Rightarrow> jsnum \<Rightarrow> jsnum" where
  "dbl_mul x y = js_fl (js_mul x y)"

definition dbl_div :: "jsnum \<Rightarrow> jsnum \<Rightarrow> jsnum" where
  "dbl_div x y = js_fl (js_div x y)"

subsection \<open>Values read from a table\<close>

text \<open>
  A value of the scoring function is a number, a built-in function or object read through
  an inherited name, or a text that is no numeral: \<open>+\<close> with an operand that is not a
  number concatenates texts, and a built-in or such a text converts to \<open>NaN\<close>.
\<close>

datatype jsval = Num jsnum | Builtin | Text

fun to_number :: "jsval \<Rightarrow> jsnum" where
  "to_number (Num a) = a"
| "to_number Builtin = NaN"
| "to_number Text = NaN"

fun js_plus :: "jsval \<Rightarrow> jsval \<Rightarrow> jsval" where
  "js_plus (Num a) (Num b) = Num (dbl_add a b)"
| "js_plus x y = Text"

text \<open>\<open>table[key] || d\<close> on an object literal of numbers: the own entry unless it is the
  falsy number 0, the built-in behind an inherited name, and \<open>d\<close> otherwise. A decimal
  literal stands for the nearest double.\<close>

definition lookup_or :: "(string \<times> rat) list \<Rightarrow> string \<Rightarrow> rat \<Rightarrow> jsval" where
  "lookup_or table key d =
     (case map_of table key of
        Some v \<Rightarrow> if v = 0 then Num (fl d) else Num (fl v)
      | None \<Rightarrow> if inherited key then Builtin else Num (fl d))"

section \<open>Analytics and Reporting Engine\<close>

subsection \<open>Threats and their score\<close>

text \<open>A threat, with the fields that the engine reads. The engagement is a finite number;
  the data type and the date of detection may be missing.\<close>

record threat =
  platform :: string
  username :: string
  engagement :: rat
  riskLevel :: string
  dataType :: "string option"
  dateDetected :: "string option"

definition riskScores :: "(string \<times> rat) list" where
  "riskScores = [(''critical'', 40), (''high'', 30), (''medium'', 20), (''low'', 10)]"

definition platformReachFactors :: "(string \<times> rat) list" where
  "platformReachFactors =
     [(''github'', 3 / 2), (''twitter'', 13 / 10), (''reddit'', 6 / 5),
      (''linkedin'', 11 / 10), (''darkweb'', 2), (''facebook'', 1), (''instagram'', 4 / 5)]"

definition sensitiveDataTypes :: "string list" where
  "sensitiveDataTypes = [''API Keys'', ''Customer Records'', ''Financial Data'', ''Database Schema'']"

text \<open>\<open>threat.dataType && sensitiveDataTypes.some((dt) => threat.dataType.includes(dt))\<close>:
  the data type is present, not empty, and contains one of the listed categories.\<close>

definition is_sensitive :: "string option \<Rightarrow> bool" where
  "is_sensitive d =
     (case d of None \<Rightarrow> False
      | Some s \<Rightarrow> s \<noteq> [] \<and> list_ex (\<lambda>dt. str_includes s dt) sensitiveDataTypes)"

definition calculateThreatScore :: "threat \<Rightarrow> jsnum" where
  "calculateThreatScore t =
     (let score = Num (Fin 0);
          score = js_plus score (lookup_or riskScores (riskLevel t) 0);
          engagementScore =
            js_min (dbl_mul (dbl_div (Fin (engagement t)) (Fin 1000)) (Fin 20)) (Fin 20);
          score = js_plus score (Num engagementScore);
          platformFactor = lookup_or platformReachFactors (toLowerCase (platform t)) 1;
          score = Num (dbl_mul (to_number score) (to_number platformFactor));
          score = (if is_sensitive (dataType t) then js_plus score (Num (Fin 15)) else score)
      in js_min (js_round (to_number score)) (Fin 100))"

subsection \<open>Objects used as dictionaries, sets and sorting\<close>

text \<open>
  An object that the code fills key by key is an association list with one entry per own
  key, in the order in which the keys were first written. \<open>Object.keys\<close>,
  \<open>Object.values\<close> and \<open>Object.entries\<close> enumerate the own keys that are canonical
  array indices first, in ascending numeric order, and then all other own keys in the
  order of their creation.
\<close>

type_synonym 'v obj = "(string \<times> 'v) list"

fun obj_set :: "string \<Rightarrow> 'v \<Rightarrow> 'v obj \<Rightarrow> 'v obj" where
  "obj_set k v [] = [(k, v)]"
| "obj_set k v (p # ps) = (if fst p = k then (k, v) # ps else p # obj_set k v ps)"

text \<open>\<open>m[k] = f(m[k])\<close>, where \<open>f\<close> is given \<open>None\<close> for a key that is not there yet.
  This and \<open>obj_count\<close> describe the counting objects of the report for keys that are not
  inherited names; with an inherited name the code builds a text from a built-in function
  of the host, which this model does not follow.\<close>

definition obj_modify :: "string \<Rightarrow> ('v option \<Rightarrow> 'v) \<Rightarrow> 'v obj \<Rightarrow> 'v obj" where
  "obj_modify k f m = obj_set k (f (map_of m k)) m"

text \<open>
  \<open>if (!m[k]) m[k] = []; m[k].push(v)\<close>. When \<open>k\<close> is not an own key but an inherited
  name, \<open>m[k]\<close> is a built-in and truthy, the array is not created, and the built-in has
  no method \<open>push\<close>: the call throws a \<open>TypeError\<close>.
\<close>

definition obj_push :: "string \<Rightarrow> 'a \<Rightarrow> 'a list obj \<Rightarrow> error + 'a list obj" where
  "obj_push k v m =
     (case map_of m k of
        Some vs \<Rightarrow> Inr (obj_set k (vs @ [v]) m)
      | None \<Rightarrow> if inherited k then Inl TypeError else Inr (m @ [(k, [v])]))"

text \<open>A loop over a list whose body may throw: the first error ends it.\<close>

fun fold_err :: "('a \<Rightarrow> 'b \<Rightarrow> error + 'b) \<Rightarrow> 'a list \<Rightarrow> 'b \<Rightarrow> error + 'b" where
  "fold_err f [] acc = Inr acc"
| "fold_err f (x # xs) acc = (case f x acc of Inl e \<Rightarrow> Inl e | Inr acc' \<Rightarrow> fold_err f xs acc')"

text \<open>\<open>m[k] = (m[k] || 0) + 1\<close>\<close>

definition obj_count :: "string \<Rightarrow> nat obj \<Rightarrow> nat obj" where
  "obj_count k m = obj_modify k (\<lambda>old. (case old of None \<Rightarrow> 0 | Some c \<Rightarrow> c) + 1) m"

definition digit_val :: "char \<Rightarrow> nat" where
  "digit_val c = length (takeWhile (\<lambda>d. d \<noteq> c) digit_chars)"

definition nat_of_digits :: "string \<Rightarrow> nat" where
  "nat_of_digits s = fold (\<lambda>c n. 10 * n + digit_val c) s 0"

definition is_array_index :: "string \<Rightarrow> bool" where
  "is_array_index s =
     (s \<noteq> [] \<and> list_all (\<lambda>c. c \<in> set digit_chars) s
      \<and> (s = ''0'' \<or> \<not> starts_with s ''0'') \<and> nat_of_digits s < 4294967295)"

definition obj_entries :: "'v obj \<Rightarrow> (string \<times> 'v) list" where
  "obj_entries m =
     sort_key (\<lambda>p. nat_of_digits (fst p)) (filter (\<lambda>p. is_array_index (fst p)) m)
     @ filter (\<lambda>p. \<not> is_array_index (fst p)) m"

definition obj_keys :: "'v obj \<Rightarrow> string list" where
  "obj_keys m = map fst (obj_entries m)"

definition obj_values :: "'v obj \<Rightarrow> 'v list" where
  "obj_values m = map snd (obj_entries m)"

text \<open>\<open>[...new Set(xs)]\<close>: the distinct elements in the order of their first occurrence.\<close>

definition set_add :: "'a \<Rightarrow> 'a list \<Rightarrow> 'a list" where
  "set_add x acc = (if x \<in> set acc then acc else acc @ [x])"

definition uniq :: "'a list \<Rightarrow> 'a list" where
  "uniq xs = fold set_add xs []"

text \<open>A \<open>Map\<close> with numeric keys: one entry per key, in insertion order.\<close>

type_synonym ('k, 'v) jsmap = "('k \<times> 'v) list"

fun map_set :: "'k \<Rightarrow> 'v \<Rightarrow> ('k, 'v) jsmap \<Rightarrow> ('k, 'v) jsmap" where
  "map_set k v [] = [(k, v)]"
| "map_set k v (p # ps) = (if fst p = k then (k, v) # ps else p # map_set k v ps)"

definition map_get :: "('k, 'v) jsmap \<Rightarrow> 'k \<Rightarrow> 'v option" where
  "map_get m k = map_of m k"

definition map_delete :: "'k \<Rightarrow> ('k, 'v) jsmap \<Rightarrow> ('k, 'v) jsmap" where
  "map_delete k m = filter (\<lambda>p. fst p \<noteq> k) m"

subsection \<open>Correlations between threats\<close>

text \<open>
  A correlation has one of two shapes, \<open>MULTI_PLATFORM_EXPOSURE dataType affectedPlatforms
  instanceCount\<close> or \<open>REPEAT_OFFENDER username threatCount platforms\<close>. Both carry
  the fixed severity \<open>high\<close>; their description is a sentence made of the same fields.
\<close>

datatype correlation =
  MULTI_PLATFORM_EXPOSURE string "string list" nat
| REPEAT_OFFENDER string nat "string list"

definition correlation_severity :: "correlation \<Rightarrow> string" where
  "correlation_severity c = ''high''"

definition identifyCorrelations :: "threat list \<Rightarrow> error + correlation list" where
  "identifyCorrelations threats =
     (case fold_err (\<lambda>t m. case dataType t of None \<Rightarrow> Inr m
                            | Some d \<Rightarrow> if d \<noteq> [] then obj_push d t m else Inr m)
             threats [] of
        Inl e \<Rightarrow> Inl e
      | Inr dataTypeMap \<Rightarrow>
          (let multi =
                 concat (map (\<lambda>(d, threatList).
                           if length threatList > 1
                           then (let platforms = uniq (map platform threatList)
                                 in if length platforms > 1
                                    then [MULTI_PLATFORM_EXPOSURE d platforms
                                            (length threatList)]
                                    else [])
                           else [])
                         (obj_entries dataTypeMap))
           in case fold_err (\<lambda>t m. obj_push (username t) t m) threats [] of
                Inl e \<Rightarrow> Inl e
              | Inr userMap \<Rightarrow>
                  Inr (multi
                       @ concat (map (\<lambda>(u, threatList).
                                   if length threatList > 1
                                   then [REPEAT_OFFENDER u (length threatList)
                                           (uniq (map platform threatList))]
                                   else [])
                                 (obj_entries userMap)))))"

subsection \<open>Overall risk\<close>

datatype verdict = LOW | MEDIUM | HIGH | CRITICAL

record action_item =
  priority :: nat
  action :: string
  action_timeframe :: string
  owner :: string

definition has_dataType :: "string \<Rightarrow> threat \<Rightarrow> bool" where
  "has_dataType w t = (case dataType t of None \<Rightarrow> False | Some d \<Rightarrow> d \<noteq> [] \<and> str_includes d w)"

definition getImmediateActions :: "threat list \<Rightarrow> action_item list" where
  "getImmediateActions threats =
     (let actions = [];
          actions = (if list_ex (has_dataType ''API'') threats
                     then actions @ [\<lparr>priority = 1, action = ''Revoke all exposed API keys'',
                            action_timeframe = ''IMMEDIATE'', owner = ''Security Team''\<rparr>]
                     else actions);
          actions = (if list_ex (has_dataType ''Customer'') threats
                     then actions @ [\<lparr>priority = 2,
                            action = ''Initiate customer breach notification'',
                            action_timeframe = ''24 hours'', owner = ''Legal/PR''\<rparr>]
                     else actions);
          viralThreats = filter (\<lambda>t. engagement t > 5000) threats;
          actions = (if length viralThreats > 0
                     then actions @ [\<lparr>priority = 3,
                            action = ''Launch crisis communication response'',
                            action_timeframe = ''4 hours'', owner = ''Communications''\<rparr>]
                     else actions);
          actions = (if list_ex (\<lambda>t. platform t = ''Dark Web'') threats
                     then actions @ [\<lparr>priority = 1,
                            action = ''Engage dark web monitoring specialists'',
                            action_timeframe = ''IMMEDIATE'', owner = ''Threat Intelligence''\<rparr>]
                     else actions)
      in sort_key priority actions)"

text \<open>The four risk factors are sentences built from four numbers; the record keeps the
  numbers: the critical count, the rounded average, the rounded maximum and the number of
  distinct platforms.\<close>

record risk_assessment =
  level :: verdict
  score :: jsnum
  maxScore :: jsnum
  riskFactors :: "nat \<times> jsnum \<times> jsnum \<times> nat"
  immediateActions :: "action_item list"

definition assessOverallRisk :: "threat list \<Rightarrow> risk_assessment" where
  "assessOverallRisk threats =
     (let scores = map calculateThreatScore threats;
          avgScore = js_div (js_sum scores) (Fin (of_nat (length scores)));
          maxScore = js_max scores;
          criticalCount = length (filter (\<lambda>t. riskLevel t = ''critical'') threats);
          overallRisk =
            (if js_ge maxScore 80 \<or> criticalCount \<ge> 5 then CRITICAL
             else if js_ge avgScore 60 \<or> criticalCount \<ge> 2 then HIGH
             else if js_ge avgScore 40 then MEDIUM
             else LOW)
      in \<lparr>level = overallRisk,
          score = js_round avgScore,
          maxScore = js_round maxScore,
          riskFactors = (criticalCount, js_round avgScore, js_round maxScore,
                         length (uniq (map platform threats))),
          immediateActions = getImmediateActions threats\<rparr>)"

subsection \<open>Top threats and pattern breakdown\<close>

text \<open>A top threat is the threat itself with its score and its rank in the list.\<close>

record top_threat =
  rank :: nat
  ranked :: threat
  threatScore :: jsnum

fun is_fin :: "jsnum \<Rightarrow> bool" where
  "is_fin (Fin a) = True"
| "is_fin x = False"

fun fin_value :: "jsnum \<Rightarrow> rat" where
  "fin_value (Fin a) = a"
| "fin_value x = 0"

text \<open>
  \<open>sort((a, b) => b.threatScore - a.threatScore)\<close> is a stable sort into descending
  score, done on the fresh array that \<open>map\<close> returned. When a score is not finite the
  difference is \<open>NaN\<close> for some pairs and the host leaves the order open; the list is
  then kept in the order of the batch.
\<close>

definition identifyTopThreats :: "threat list \<Rightarrow> nat \<Rightarrow> top_threat list" where
  "identifyTopThreats threats limit =
     (let scored = map (\<lambda>t. (t, calculateThreatScore t)) threats;
          ordered = (if list_all (\<lambda>(t, s). is_fin s) scored
                    then sort_key (\<lambda>(t, s). - fin_value s) scored
                    else scored)
      in map (\<lambda>(index, (t, s)). \<lparr>rank = index + 1, ranked = t, threatScore = s\<rparr>)
           (enumerate 0 (take limit ordered)))"

text \<open>The breakdown by hour and weekday reads the local calendar of the host and is left
  out of the record; it touches nothing else. The correlations come last and may throw;
  a data type that is an inherited name makes the breakdown by data type throw the same
  error before.\<close>

record threat_patterns =
  byPlatform :: "(nat \<times> jsnum) obj"
  byDataType :: "(nat \<times> string list) obj"
  byRiskLevel :: "nat obj"
  correlations :: "correlation list"

definition analyzeThreatPatterns :: "threat list \<Rightarrow> error + threat_patterns" where
  "analyzeThreatPatterns threats =
     (let bp = fold (\<lambda>t m. obj_modify (platform t)
                      (\<lambda>old. case (case old of None \<Rightarrow> (0, Fin 0) | Some e \<Rightarrow> e) of
                                (c, tot) \<Rightarrow> (c + 1, js_add tot (calculateThreatScore t))) m)
                 threats [];
          bd = fold (\<lambda>t m. case dataType t of None \<Rightarrow> m
                      | Some d \<Rightarrow>
                          if d \<noteq> []
                          then obj_modify d
                                 (\<lambda>old. case (case old of None \<Rightarrow> (0, []) | Some e \<Rightarrow> e) of
                                           (c, ps) \<Rightarrow> (c + 1, set_add (platform t) ps)) m
                          else m)
                 threats [];
          br = fold (\<lambda>t m. obj_count (riskLevel t) m) threats []
      in case identifyCorrelations threats of
           Inl e \<Rightarrow> Inl e
         | Inr cs \<Rightarrow> Inr \<lparr>byPlatform = bp, byDataType = bd, byRiskLevel = br,
                             correlations = cs\<rparr>)"

subsection \<open>Dispersion and timeline\<close>

datatype dispersion_level = DISP_LOW | DISP_MEDIUM | DISP_HIGH

text \<open>The standard deviation is the square root of the variance; the record keeps the
  variance, and the level compares it with the squares of the two thresholds.\<close>

record dispersion =
  platformCount :: nat
  distribution :: "nat obj"
  variance :: jsnum
  dispersionLevel :: dispersion_level

definition calculateDispersion :: "threat list \<Rightarrow> dispersion" where
  "calculateDispersion threats =
     (let platformCounts = fold (\<lambda>t m. obj_count (platform t) m) threats [];
          vals = obj_values platformCounts;
          avg = js_div (Fin (of_nat (fold (\<lambda>b a. a + b) vals 0))) (Fin (of_nat (length vals)));
          var = js_div
                  (fold (\<lambda>val sum. js_add sum
                           (js_mul (js_sub (Fin (of_nat val)) avg) (js_sub (Fin (of_nat val)) avg)))
                     vals (Fin 0))
                  (Fin (of_nat (length vals)))
      in \<lparr>platformCount = length (obj_keys platformCounts),
          distribution = platformCounts,
          variance = var,
          dispersionLevel = (if js_gt var 25 then DISP_HIGH
                             else if js_gt var 4 then DISP_MEDIUM else DISP_LOW)\<rparr>)"

datatype trend = UP | DOWN | STABLE

record timeline_analysis =
  dateRange :: "string option \<times> string option"
  threatsPerDay :: "nat obj"
  trend :: trend
  peakDay :: string

text \<open>\<open>timeline[k]\<close> for a key taken from the timeline itself.\<close>

definition count_of :: "nat obj \<Rightarrow> string \<Rightarrow> nat" where
  "count_of timeline k = (case map_of timeline k of Some c \<Rightarrow> c | None \<Rightarrow> 0)"

text \<open>\<open>keys.reduce((a, b) => (timeline[a] > timeline[b] ? a : b))\<close> has no initial value:
  on an empty array it throws a \<open>TypeError\<close>.\<close>

definition reduce_peak :: "nat obj \<Rightarrow> string list \<Rightarrow> error + string" where
  "reduce_peak timeline keys =
     (case keys of [] \<Rightarrow> Inl TypeError
      | k # ks \<Rightarrow> Inr (fold (\<lambda>b a. if count_of timeline a > count_of timeline b
                                   then a else b) ks k))"

definition analyzeTimeline :: "threat list \<Rightarrow> error + timeline_analysis" where
  "analyzeTimeline threats =
     (let timeline =
            fold (\<lambda>t m. case dateDetected t of None \<Rightarrow> m
                    | Some d \<Rightarrow> if d \<noteq> [] then obj_count (take 10 d) m else m) threats [];
          dates = sort (obj_keys timeline);
          tr = (if length dates > 1
                then (if count_of timeline (last dates) > count_of timeline (hd dates)
                      then UP else DOWN)
                else STABLE)
      in case reduce_peak timeline (obj_keys timeline) of
           Inl e \<Rightarrow> Inl e
         | Inr peak \<Rightarrow>
             Inr \<lparr>dateRange = (if dates = [] then (None, None)
                               else (Some (hd dates), Some (last dates))),
                  threatsPerDay = timeline,
                  trend = tr,
                  peakDay = peak\<rparr>)"

subsection \<open>Reports and the report cache\<close>

record summary =
  totalThreats :: nat
  criticalCount :: nat
  highCount :: nat
  uniquePlatforms :: nat
  uniqueDataTypes :: nat
  averageThreatScore :: jsnum

record action_group =
  group_timeframe :: string
  actions :: "string list"

definition generateActionItems :: "action_group list" where
  "generateActionItems =
     [\<lparr>group_timeframe = ''IMMEDIATE (0-2 hours)'',
       actions = [''Alert security operations center (SOC)'',
                  ''Notify CISO and executive leadership'',
                  ''Begin threat intelligence assessment'',
                  ''Prepare crisis communication template'']\<rparr>,
      \<lparr>group_timeframe = ''SHORT-TERM (2-24 hours)'',
       actions = [''Conduct full damage assessment'',
                  ''Identify all affected systems and data'',
                  ''Begin incident response procedures'',
                  ''Activate external incident response teams if needed'',
                  ''Prepare customer/stakeholder notification'']\<rparr>,
      \<lparr>group_timeframe = ''MEDIUM-TERM (1-7 days)'',
       actions = [''Complete root cause analysis'',
                  ''Implement temporary mitigations'',
                  ''Execute customer notification campaign'',
                  ''File incident reports with regulators if required'',
                  ''Update security posture'']\<rparr>]"

text \<open>The density is shown with two decimals; the record keeps the number.\<close>

record report_metrics =
  threatDensity :: rat
  platformDispersion :: dispersion
  timelineAnalysis :: timeline_analysis

text \<open>The identifier \<open>report_<ms>\<close> is represented by the clock reading \<open><ms>\<close> that
  it is made of; \<open>generatedAt\<close> is a clock reading in milliseconds as well.\<close>

record report =
  reportId :: int
  generatedAt :: int
  timeframe :: string
  summary :: summary
  topThreats :: "top_threat list"
  patterns :: threat_patterns
  riskAssessment :: risk_assessment
  recommendations :: "action_group list"
  metrics :: report_metrics

record engine_metrics =
  totalThreatsProcessed :: nat
  averageResponseTime :: nat
  detectionAccuracy :: nat

record engine =
  threatDatabase :: "threat list"
  reportCache :: "(int, report) jsmap"
  engine_metrics :: engine_metrics

definition new_engine :: engine where
  "new_engine =
     \<lparr>threatDatabase = [], reportCache = [],
      engine_metrics = \<lparr>totalThreatsProcessed = 0, averageResponseTime = 0,
                         detectionAccuracy = 0\<rparr>\<rparr>"

definition make_summary :: "threat list \<Rightarrow> summary" where
  "make_summary threats =
     \<lparr>totalThreats = length threats,
      criticalCount = length (filter (\<lambda>t. riskLevel t = ''critical'') threats),
      highCount = length (filter (\<lambda>t. riskLevel t = ''high'') threats),
      uniquePlatforms = length (uniq (map platform threats)),
      uniqueDataTypes = length (uniq (map dataType threats)),
      averageThreatScore =
        js_round (js_div (js_sum (map calculateThreatScore threats))
                         (Fin (of_nat (length threats))))\<rparr>"

text \<open>
  \<open>generateThreatReport\<close> reads the clock twice (\<open>Date.now()\<close> for the identifier,
  \<open>new Date()\<close> for \<open>generatedAt\<close>), builds the fields of the report in the order of the
  object literal, and stores the report in the cache. The pattern analysis and the
  timeline analysis can throw; when one does, nothing has been stored.
\<close>

definition generateThreatReport ::
  "engine \<Rightarrow> int \<Rightarrow> int \<Rightarrow> threat list \<Rightarrow> string \<Rightarrow> error + (report \<times> engine)" where
  "generateThreatReport eng now_id now_date threats tf =
     (let s = make_summary threats;
          top = identifyTopThreats threats 10
      in case analyzeThreatPatterns threats of
           Inl e \<Rightarrow> Inl e
         | Inr pats \<Rightarrow>
             (let risk = assessOverallRisk threats;
                  recs = generateActionItems;
                  density = of_nat (length threats) / 7;
                  disp = calculateDispersion threats
              in case analyzeTimeline threats of
                   Inl e \<Rightarrow> Inl e
                 | Inr tline \<Rightarrow>
                     (let rep = \<lparr>reportId = now_id, generatedAt = now_date, timeframe = tf,
                                 summary = s, topThreats = top, patterns = pats,
                                 riskAssessment = risk, recommendations = recs,
                                 metrics = \<lparr>threatDensity = density,
                                             platformDispersion = disp,
                                             timelineAnalysis = tline\<rparr>\<rparr>
                      in Inr (rep,
                              eng\<lparr>reportCache := map_set now_id rep (reportCache eng)\<rparr>))))"

definition getCachedReport :: "engine \<Rightarrow> int \<Rightarrow> report option" where
  "getCachedReport eng rid = map_get (reportCache eng) rid"

text \<open>
  \<open>clearOldReports\<close> walks the entries of the cache and deletes the entry it stands on
  when its report is older than thirty days. Deleting the current entry of a \<open>Map\<close> does
  not disturb the walk, so the walk visits the entries that were there at the start.
\<close>

definition clearOldReports :: "engine \<Rightarrow> int \<Rightarrow> engine" where
  "clearOldReports eng now =
     (let thirtyDaysAgo = now - 30 * 24 * 60 * 60 * 1000
      in eng\<lparr>reportCache :=
               fold (\<lambda>(rid, rep) cache.
                       if generatedAt rep < thirtyDaysAgo then map_delete rid cache else cache)
                 (reportCache eng) (reportCache eng)\<rparr>)"

text \<open>Example data for the closed instances below: a report of a given identifier and age
  over a batch of one dated threat.\<close>

definition example_threat :: threat where
  "example_threat =
     \<lparr>platform = ''Instagram'', username = ''mallory'', engagement = 0,
      riskLevel = ''critical'', dataType = Some ''Source Code'',
      dateDetected = Some ''2024-05-01''\<rparr>"

definition example_report :: "int \<Rightarrow> int \<Rightarrow> report" where
  "example_report rid gen =
     \<lparr>reportId = rid, generatedAt = gen, timeframe = ''7d'',
      summary = make_summary [example_threat],
      topThreats = identifyTopThreats [example_threat] 10,
      patterns = \<lparr>byPlatform = [(''Instagram'', (1, Fin 32))],
                  byDataType = [(''Source Code'', (1, [''Instagram'']))],
                  byRiskLevel = [(''critical'', 1)], correlations = []\<rparr>,
      riskAssessment = assessOverallRisk [example_threat],
      recommendations = generateActionItems,
      metrics = \<lparr>threatDensity = 1 / 7,
                  platformDispersion = calculateDispersion [example_threat],
                  timelineAnalysis =
                    \<lparr>dateRange = (Some ''2024-05-01'', Some ''2024-05-01''),
                     threatsPerDay = [(''2024-05-01'', 1)], trend = STABLE,
                     peakDay = ''2024-05-01''\<rparr>\<rparr>\<rparr>"

section \<open>Data Leak Detection Service\<close>

subsection \<open>Regular expressions\<close>

text \<open>
  The patterns of the service use character classes with bounded or unbounded greedy
  repetition, the word boundary, and alternation at top level. A pattern is a list of
  alternatives, an alternative a list of items; a group repeated a fixed number of times
  is written out. Matching is the backtracking search of the host: alternatives from left
  to right, and for each repetition the longest run first.
\<close>

datatype item = Rep "char \<Rightarrow> bool" nat "nat option" | WordB

type_synonym regex = "item list list"

definition is_alnum :: "char \<Rightarrow> bool" where
  "is_alnum c = (c \<in> set (upper_letters @ lower_letters @ digit_chars))"

definition is_letter :: "char \<Rightarrow> bool" where
  "is_letter c = (c \<in> set (upper_letters @ lower_letters))"

definition is_digit :: "char \<Rightarrow> bool" where
  "is_digit c = (c \<in> set digit_chars)"

definition is_word :: "char \<Rightarrow> bool" where
  "is_word c = (is_alnum c \<or> c = CHR ''_'')"

definition is_space :: "char \<Rightarrow> bool" where
  "is_space c = (c \<in> set [CHR 0x09, CHR 0x0A, CHR 0x0B, CHR 0x0C, CHR 0x0D, CHR 0x20, CHR 0xA0])"

fun first_some :: "'a option list \<Rightarrow> 'a option" where
  "first_some [] = None"
| "first_some (None # xs) = first_some xs"
| "first_some (Some x # xs) = Some x"

text \<open>The character before position \<open>n\<close> of \<open>s\<close>, where \<open>prev\<close> is the one before \<open>s\<close>.\<close>

definition prev_char :: "char option \<Rightarrow> string \<Rightarrow> nat \<Rightarrow> char option" where
  "prev_char prev s n = (if n = 0 then prev else Some (s ! (n - 1)))"

definition word_side :: "char option \<Rightarrow> bool" where
  "word_side c = (case c of None \<Rightarrow> False | Some x \<Rightarrow> is_word x)"

definition next_char :: "string \<Rightarrow> char option" where
  "next_char s = (case s of [] \<Rightarrow> None | c # cs \<Rightarrow> Some c)"

text \<open>\<open>match_here items prev s\<close>: the length of the match of the items at the head of
  \<open>s\<close>, if there is one.\<close>

fun match_here :: "item list \<Rightarrow> char option \<Rightarrow> string \<Rightarrow> nat option" where
  "match_here [] prev s = Some 0"
| "match_here (WordB # rest) prev s =
     (if word_side prev \<noteq> word_side (next_char s) then match_here rest prev s else None)"
| "match_here (Rep cls lo hi # rest) prev s =
     (let run = length (takeWhile cls s);
          most = (case hi of None \<Rightarrow> run | Some h \<Rightarrow> min h run)
      in first_some
           (map (\<lambda>n. map_option (\<lambda>m. n + m) (match_here rest (prev_char prev s n) (drop n s)))
              (rev [lo..<Suc most])))"

definition match_alt :: "regex \<Rightarrow> char option \<Rightarrow> string \<Rightarrow> nat option" where
  "match_alt re prev s = first_some (map (\<lambda>alt. match_here alt prev s) re)"

text \<open>All matches from left to right, each with its start index (the global flag): after
  a match the search goes on behind it, after an empty match one character further.\<close>

fun scan :: "regex \<Rightarrow> nat \<Rightarrow> char option \<Rightarrow> string \<Rightarrow> (nat \<times> string) list" where
  "scan re i prev [] = (case match_alt re prev [] of None \<Rightarrow> [] | Some n \<Rightarrow> [(i, [])])"
| "scan re i prev (c # cs) =
     (case match_alt re prev (c # cs) of
        None \<Rightarrow> scan re (i + 1) (Some c) cs
      | Some 0 \<Rightarrow> (i, []) # scan re (i + 1) (Some c) cs
      | Some (Suc n) \<Rightarrow>
          (i, take (Suc n) (c # cs)) # scan re (i + Suc n) (Some ((c # cs) ! n)) (drop n cs))"

text \<open>\<open>content.match(re) || []\<close> with the global flag, and the truth of
  \<open>content.match(re)\<close> without it.\<close>

definition match_all :: "regex \<Rightarrow> string \<Rightarrow> string list" where
  "match_all re content = map snd (scan re 0 None content)"

definition matches_somewhere :: "regex \<Rightarrow> string \<Rightarrow> bool" where
  "matches_somewhere re content = (scan re 0 None content \<noteq> [])"

text \<open>A literal under the flag that ignores case.\<close>

definition ci_literal :: "string \<Rightarrow> item list" where
  "ci_literal w = map (\<lambda>k. Rep (\<lambda>c. toLowerCase_char c = toLowerCase_char k) 1 (Some 1)) w"

definition api_key_regex :: regex where
  "api_key_regex = [[Rep is_alnum 32 None]]"

definition ip_regex :: regex where
  "ip_regex =
     [[Rep is_digit 1 (Some 3), Rep (\<lambda>c. c = CHR ''.'') 1 (Some 1),
       Rep is_digit 1 (Some 3), Rep (\<lambda>c. c = CHR ''.'') 1 (Some 1),
       Rep is_digit 1 (Some 3), Rep (\<lambda>c. c = CHR ''.'') 1 (Some 1),
       Rep is_digit 1 (Some 3)]]"

definition email_regex :: regex where
  "email_regex =
     [[Rep (\<lambda>c. is_alnum c \<or> c \<in> set ''._%+-'') 1 None,
       Rep (\<lambda>c. c = CHR ''@'') 1 (Some 1),
       Rep (\<lambda>c. is_alnum c \<or> c \<in> set ''.-'') 1 None,
       Rep (\<lambda>c. c = CHR ''.'') 1 (Some 1),
       Rep is_letter 2 None]]"

definition credit_card_regex :: regex where
  "credit_card_regex =
     [[WordB,
       Rep is_digit 4 (Some 4), Rep (\<lambda>c. is_space c \<or> c = CHR ''-'') 0 (Some 1),
       Rep is_digit 4 (Some 4), Rep (\<lambda>c. is_space c \<or> c = CHR ''-'') 0 (Some 1),
       Rep is_digit 4 (Some 4), Rep (\<lambda>c. is_space c \<or> c = CHR ''-'') 0 (Some 1),
       Rep is_digit 4 (Some 4),
       WordB]]"

definition database_regex :: regex where
  "database_regex =
     [ci_literal ''mongodb'', ci_literal ''postgresql'', ci_literal ''mysql'',
      ci_literal ''oracle'']"

subsection \<open>Analysis of one text\<close>

datatype risk_level = Critical | High | Medium | Low

datatype pattern_type = API_KEY | IP_ADDRESS | EMAIL_ADDRESS | CREDIT_CARD | DATABASE_CONNECTION

record keyword_match =
  keyword :: string
  kcount :: nat
  occurrences :: "(nat \<times> string) list"

record pattern_hit =
  ptype :: pattern_type
  severity :: risk_level
  matches :: "string list"
  count :: nat

definition monitoredKeywords :: "string list" where
  "monitoredKeywords =
     [''credentials'', ''API key'', ''password'', ''secret'', ''token'', ''database'',
      ''schema'', ''employee records'', ''customer data'', ''confidential'', ''proprietary'',
      ''source code'', ''vulnerability'', ''exploit'', ''breach'']"

text \<open>\<open>findOccurrences\<close>: every match of the keyword together with the characters that
  are not white space around it, each with its index.\<close>

definition findOccurrences :: "string \<Rightarrow> string \<Rightarrow> (nat \<times> string) list" where
  "findOccurrences content kw =
     scan [[Rep (\<lambda>c. \<not> is_space c) 0 None] @ ci_literal kw @ [Rep (\<lambda>c. \<not> is_space c) 0 None]]
       0 None content"

definition detectKeywords :: "string \<Rightarrow> keyword_match list" where
  "detectKeywords content =
     (let lowerContent = toLowerCase content
      in concat (map (\<lambda>kw.
            if str_includes lowerContent (toLowerCase kw)
            then [\<lparr>keyword = kw,
                   kcount = length (match_all [ci_literal kw] content),
                   occurrences = findOccurrences content kw\<rparr>]
            else []) monitoredKeywords))"

definition detectSuspiciousPatterns :: "string \<Rightarrow> pattern_hit list" where
  "detectSuspiciousPatterns content =
     (let found = [];
          apiKeyMatches = match_all api_key_regex content;
          found = (if length apiKeyMatches > 0
                   then found @ [\<lparr>ptype = API_KEY, severity = Critical,
                                   matches = take 5 apiKeyMatches,
                                   count = length apiKeyMatches\<rparr>]
                   else found);
          ipMatches = match_all ip_regex content;
          found = (if length ipMatches > 0
                   then found @ [\<lparr>ptype = IP_ADDRESS, severity = High,
                                   matches = ipMatches, count = length ipMatches\<rparr>]
                   else found);
          emailMatches = match_all email_regex content;
          found = (if length emailMatches > 0
                   then found @ [\<lparr>ptype = EMAIL_ADDRESS, severity = Medium,
                                   matches = take 5 emailMatches,
                                   count = length emailMatches\<rparr>]
                   else found);
          ccMatches = match_all credit_card_regex content;
          found = (if length ccMatches > 0
                   then found @ [\<lparr>ptype = CREDIT_CARD, severity = Critical,
                                   matches = ccMatches, count = length ccMatches\<rparr>]
                   else found);
          found = (if matches_somewhere database_regex content
                   then found @ [\<lparr>ptype = DATABASE_CONNECTION, severity = Critical,
                                   matches = [''Potential database credentials found''],
                                   count = 1\<rparr>]
                   else found)
      in found)"

text \<open>The categories are collected in a set that remembers the order of insertion.\<close>

definition classify_keyword :: "string \<Rightarrow> string list \<Rightarrow> string list" where
  "classify_keyword kw dataTypes =
     (let k = toLowerCase kw;
          dataTypes = (if str_includes k ''employee'' \<or> str_includes k ''staff''
                       then set_add ''Employee Information'' dataTypes else dataTypes);
          dataTypes = (if str_includes k ''customer'' \<or> str_includes k ''user''
                       then set_add ''Customer Records'' dataTypes else dataTypes);
          dataTypes = (if str_includes k ''api'' \<or> str_includes k ''key''
                       then set_add ''API Keys/Secrets'' dataTypes else dataTypes);
          dataTypes = (if str_includes k ''database'' \<or> str_includes k ''schema''
                       then set_add ''Database Schema'' dataTypes else dataTypes);
          dataTypes = (if str_includes k ''password'' \<or> str_includes k ''credentials''
                       then set_add ''Authentication Credentials'' dataTypes else dataTypes);
          dataTypes = (if str_includes k ''source'' \<or> str_includes k ''code''
                       then set_add ''Source Code'' dataTypes else dataTypes);
          dataTypes = (if str_includes k ''financial'' \<or> str_includes k ''salary''
                       then set_add ''Financial Data'' dataTypes else dataTypes)
      in dataTypes)"

definition classifyDataExposure :: "string \<Rightarrow> keyword_match list \<Rightarrow> string list" where
  "classifyDataExposure content kws =
     (let dataTypes = fold (\<lambda>kw acc. classify_keyword (keyword kw) acc) kws [];
          contentLower = toLowerCase content;
          dataTypes = (if str_includes contentLower ''salary''
                          \<or> str_includes contentLower ''payment''
                       then set_add ''Financial Data'' dataTypes else dataTypes);
          dataTypes = (if str_includes contentLower ''vulnerability''
                          \<or> str_includes contentLower ''exploit''
                       then set_add ''Security Vulnerability'' dataTypes else dataTypes);
          dataTypes = (if str_includes contentLower ''project''
                          \<or> str_includes contentLower ''roadmap''
                       then set_add ''Strategic Information'' dataTypes else dataTypes)
      in dataTypes)"

text \<open>The score that \<open>calculateRiskLevel\<close> accumulates in its local variable.\<close>

definition riskScore :: "keyword_match list \<Rightarrow> pattern_hit list \<Rightarrow> string list \<Rightarrow> nat" where
  "riskScore kws found dataTypes =
     (let acc = fold (\<lambda>p acc. if severity p = Critical then acc + 40
                              else if severity p = High then acc + 25
                              else if severity p = Medium then acc + 15
                              else acc) found 0;
          keywordCount = fold (\<lambda>kw sum. sum + kcount kw) kws 0;
          acc = acc + min (keywordCount * 5) 30;
          acc = acc + length dataTypes * 8
      in acc)"

definition calculateRiskLevel ::
  "keyword_match list \<Rightarrow> pattern_hit list \<Rightarrow> string list \<Rightarrow> risk_level" where
  "calculateRiskLevel kws found dataTypes =
     (let s = riskScore kws found dataTypes
      in if s \<ge> 70 then Critical
         else if s \<ge> 50 then High
         else if s \<ge> 30 then Medium
         else Low)"

definition calculateConfidenceScore :: "keyword_match list \<Rightarrow> pattern_hit list \<Rightarrow> nat" where
  "calculateConfidenceScore kws found =
     (let confidence = 0;
          confidence = confidence + min (length found * 15) 50;
          confidence = confidence + min (length kws * 5) 30;
          confidence = (if length found > 0 then confidence + 10 else confidence);
          confidence = (if length kws > 3 then confidence + 10 else confidence)
      in min confidence 100)"

text \<open>Platform, user name and time stamp are handed through as they come; a caller may
  leave them out.\<close>

record analysis =
  timestamp :: "string option"
  an_platform :: "string option"
  an_username :: "string option"
  originalContent :: string
  detectedLeaks :: "string list"
  an_riskLevel :: risk_level
  dataExposed :: "string list"
  matchedKeywords :: "keyword_match list"
  suspiciousElements :: "pattern_hit list"
  confidenceScore :: nat

definition analyzeSocialMediaContent ::
  "string \<Rightarrow> string option \<Rightarrow> string option \<Rightarrow> string option \<Rightarrow> analysis" where
  "analyzeSocialMediaContent content pf user ts =
     (let keywordMatches = detectKeywords content;
          found = detectSuspiciousPatterns content;
          dataTypes = classifyDataExposure content keywordMatches
      in \<lparr>timestamp = ts, an_platform = pf, an_username = user, originalContent = content,
          detectedLeaks = [],
          an_riskLevel = calculateRiskLevel keywordMatches found dataTypes,
          dataExposed = dataTypes,
          matchedKeywords = keywordMatches,
          suspiciousElements = found,
          confidenceScore = calculateConfidenceScore keywordMatches found\<rparr>)"

text \<open>
  The detector of each kind, and the reading of the pattern pass that takes every
  detector alike: at most five examples in the list, and a count equal to the number of
  matches of the detector in the text.
\<close>

definition pattern_regex :: "pattern_type \<Rightarrow> regex" where
  "pattern_regex k =
     (case k of API_KEY \<Rightarrow> api_key_regex | IP_ADDRESS \<Rightarrow> ip_regex
      | EMAIL_ADDRESS \<Rightarrow> email_regex | CREDIT_CARD \<Rightarrow> credit_card_regex
      | DATABASE_CONNECTION \<Rightarrow> database_regex)"

definition capped_with_true_count :: "string \<Rightarrow> bool" where
  "capped_with_true_count content =
     list_all (\<lambda>p. length (matches p) \<le> 5
                  \<and> count p = length (match_all (pattern_regex (ptype p)) content))
       (detectSuspiciousPatterns content)"

text \<open>The text of the worked scenario.\<close>

definition scenario_text :: string where
  "scenario_text =
     ''Our database schema and API key ABCDEFGHIJKLMNOPQRSTUVWXYZ123456 were leaked''"

subsection \<open>Threat intelligence report of the service\<close>

record recommendation =
  rec_priority :: string
  rec_action :: string
  target :: string

definition generateRecommendations :: "analysis \<Rightarrow> recommendation list" where
  "generateRecommendations a =
     (let recs = [];
          recs = (if an_riskLevel a = Critical
                  then recs @ [\<lparr>rec_priority = ''URGENT'',
                         rec_action = ''Immediately revoke and rotate all exposed credentials'',
                         target = ''Security Team''\<rparr>,
                        \<lparr>rec_priority = ''URGENT'',
                         rec_action = ''Issue press release acknowledging the data exposure'',
                         target = ''PR/Communications''\<rparr>]
                  else recs);
          recs = (if list_ex (\<lambda>el. ptype el = API_KEY) (suspiciousElements a)
                  then recs @ [\<lparr>rec_priority = ''HIGH'',
                         rec_action = ''Regenerate all exposed API keys immediately'',
                         target = ''DevOps/Security''\<rparr>]
                  else recs);
          recs = (if list_ex (\<lambda>el. ptype el = CREDIT_CARD) (suspiciousElements a)
                  then recs @ [\<lparr>rec_priority = ''CRITICAL'',
                         rec_action = ''Contact payment processor and file fraud report'',
                         target = ''Finance/Legal''\<rparr>]
                  else recs);
          recs = (if ''Employee Information'' \<in> set (dataExposed a)
                  then recs @ [\<lparr>rec_priority = ''HIGH'',
                         rec_action = ''Notify affected employees and offer credit monitoring'',
                         target = ''HR''\<rparr>]
                  else recs);
          recs = (if ''Customer Records'' \<in> set (dataExposed a)
                  then recs @ [\<lparr>rec_priority = ''HIGH'',
                         rec_action = ''Prepare customer notification and breach disclosure'',
                         target = ''Legal/Compliance''\<rparr>]
                  else recs);
          recs = recs @ [\<lparr>rec_priority = ''MEDIUM'',
                         rec_action = ''Request content removal from ''
                            @ (case an_platform a of None \<Rightarrow> ''undefined'' | Some p \<Rightarrow> p),
                         target = ''Social Media Management''\<rparr>];
          recs = recs @ [\<lparr>rec_priority = ''MEDIUM'',
                         rec_action = ''File incident report and document for audit trail'',
                         target = ''Risk Management''\<rparr>]
      in recs)"

record aggregated =
  ag_rec :: recommendation
  frequency :: nat
  relatedIncidents :: "(string option \<times> string option) list"

definition aggregateRecommendations :: "analysis list \<Rightarrow> aggregated list" where
  "aggregateRecommendations leakAnalyses =
     (let recommendationMap =
            fold (\<lambda>a m.
                    fold (\<lambda>r m.
                            obj_modify (rec_action r)
                              (\<lambda>old. case (case old of
                                               None \<Rightarrow> \<lparr>ag_rec = r, frequency = 0,
                                                         relatedIncidents = []\<rparr>
                                             | Some e \<Rightarrow> e) of
                                        e \<Rightarrow> e\<lparr>frequency := frequency e + 1,
                                                relatedIncidents := relatedIncidents e
                                                  @ [(an_platform a, an_username a)]\<rparr>) m)
                      (generateRecommendations a) m)
              leakAnalyses []
      in take 10 (sort_key (\<lambda>e. - int (frequency e)) (obj_values recommendationMap)))"

fun severityMap :: "risk_level \<Rightarrow> nat" where
  "severityMap Critical = 4"
| "severityMap High = 3"
| "severityMap Medium = 2"
| "severityMap Low = 1"

record leak_top_threat =
  lt_rank :: nat
  lt_platform :: "string option"
  lt_username :: "string option"
  lt_riskLevel :: risk_level
  lt_dataExposed :: "string list"
  lt_confidenceScore :: nat

text \<open>
  The batch of analyses is an array that the caller owns; the store maps the reference of
  an array to its present contents. \<open>Array.prototype.sort\<close> sorts the array it is called
  on, in place and stably, and returns the same array; \<open>slice\<close> and \<open>map\<close> build new ones.
\<close>

type_synonym ref = nat

type_synonym store = "ref \<Rightarrow> analysis list"

definition array_sort :: "store \<Rightarrow> ref \<Rightarrow> store" where
  "array_sort st r = st(r := sort_key (\<lambda>a. - int (severityMap (an_riskLevel a))) (st r))"

definition service_identifyTopThreats :: "store \<Rightarrow> ref \<Rightarrow> leak_top_threat list \<times> store" where
  "service_identifyTopThreats st r =
     (let st' = array_sort st r
      in (map (\<lambda>(index, a).
                 \<lparr>lt_rank = index + 1, lt_platform = an_platform a,
                  lt_username = an_username a, lt_riskLevel = an_riskLevel a,
                  lt_dataExposed = dataExposed a, lt_confidenceScore = confidenceScore a\<rparr>)
            (enumerate 0 (take 5 (st' r))),
          st'))"

record threat_report =
  generated :: int
  tr_timeframe :: string
  totalIncidents :: nat
  criticalIncidents :: nat
  highRiskIncidents :: nat
  affectedPlatforms :: "string option list"
  dataTypesExposed :: "string list"
  tr_topThreats :: "leak_top_threat list"
  tr_recommendations :: "aggregated list"

text \<open>The fields of the report are computed in the order of the object literal: the
  counts and the two sets before the sort, the recommendations after it.\<close>

definition service_generateThreatReport ::
  "store \<Rightarrow> ref \<Rightarrow> int \<Rightarrow> string \<Rightarrow> threat_report \<times> store" where
  "service_generateThreatReport st r now tf =
     (let total = length (st r);
          crit = length (filter (\<lambda>l. an_riskLevel l = Critical) (st r));
          high = length (filter (\<lambda>l. an_riskLevel l = High) (st r));
          pfs = uniq (map an_platform (st r));
          dts = uniq (concat (map dataExposed (st r)));
          (top, st') = service_identifyTopThreats st r;
          recs = aggregateRecommendations (st' r)
      in (\<lparr>generated = now, tr_timeframe = tf, totalIncidents = total,
           criticalIncidents = crit, highRiskIncidents = high, affectedPlatforms = pfs,
           dataTypesExposed = dts, tr_topThreats = top, tr_recommendations = recs\<rparr>,
          st'))"

section \<open>Properties of the threat score\<close>

text \<open>Known doubles: the nearest doubles of 0.1 and 1.3, and two ties at the end of the
  range of exact integers.\<close>

lemma fl_examples:
  "fl (1 / 10) = Fin (3602879701896397 / 36028797018963968)"
  "fl (13 / 10) = Fin (5854679515581645 / 4503599627370496)"
  "fl 9007199254740993 = Fin 9007199254740992"
  "fl 9007199254740995 = Fin 9007199254740996"
  by code_simp+

lemma js_mul_NaN_right: "js_mul x NaN = NaN"
  by (cases x) simp_all

lemma dbl_mul_NaN_right: "dbl_mul x NaN = NaN"
  by (simp add: dbl_mul_def js_mul_NaN_right)

lemma dbl_add_NaN_left: "dbl_add NaN y = NaN"
  by (simp add: dbl_add_def)

lemma js_plus_Text_left: "js_plus Text y = Text"
  by simp

lemma js_plus_Builtin_right: "js_plus x Builtin = Text"
  by (cases x) simp_all

text \<open>A platform that the table does not list but every object inherits, such as
  \<open>constructor\<close>, makes the score \<open>NaN\<close>, whatever the other fields are; so does a risk
  level of that kind.\<close>

lemma calculateThreatScore_inherited_platform:
  assumes "inherited (toLowerCase (platform t))"
    and "map_of platformReachFactors (toLowerCase (platform t)) = None"
  shows "calculateThreatScore t = NaN"
  using assms
  by (simp add: calculateThreatScore_def Let_def lookup_or_def dbl_mul_NaN_right
      dbl_add_NaN_left)

lemma calculateThreatScore_inherited_riskLevel:
  assumes "inherited (riskLevel t)"
    and "map_of riskScores (riskLevel t) = None"
  shows "calculateThreatScore t = NaN"
proof -
  have first: "lookup_or riskScores (riskLevel t) 0 = Builtin"
    using assms by (simp add: lookup_or_def)
  have "dbl_mul NaN y = NaN" for y
    by (simp add: dbl_mul_def)
  then show ?thesis
    by (simp add: calculateThreatScore_def Let_def first js_plus_Builtin_right
        dbl_add_NaN_left)
qed

text \<open>For names that are not inherited the score is the formula of the specification in
  the arithmetic of doubles.\<close>

lemma calculateThreatScore_plain:
  assumes "\<not> inherited (riskLevel t)" and "\<not> inherited (toLowerCase (platform t))"
  shows "calculateThreatScore t =
     (let base = to_number (lookup_or riskScores (riskLevel t) 0);
          eng = js_min (dbl_mul (dbl_div (Fin (engagement t)) (Fin 1000)) (Fin 20)) (Fin 20);
          factor = to_number (lookup_or platformReachFactors (toLowerCase (platform t)) 1);
          raw = dbl_mul (dbl_add (dbl_add (Fin 0) base) eng) factor
      in js_min (js_round (if is_sensitive (dataType t) then dbl_add raw (Fin 15) else raw))
           (Fin 100))"
  using assms
  by (simp add: calculateThreatScore_def Let_def lookup_or_def split: option.splits)

lemma plain_scores:
  "calculateThreatScore \<lparr>platform = ''GitHub'', username = ''eve'', engagement = 500,
       riskLevel = ''high'', dataType = Some ''API Keys/Secrets'', dateDetected = None\<rparr>
     = Fin 75"
  "calculateThreatScore \<lparr>platform = ''reddit'', username = ''eve'', engagement = 250,
       riskLevel = ''medium'', dataType = None, dateDetected = None\<rparr> = Fin 30"
  "calculateThreatScore \<lparr>platform = ''forum'', username = ''eve'', engagement = 0,
       riskLevel = ''low'', dataType = None, dateDetected = None\<rparr> = Fin 10"
  by code_simp+

text \<open>The double written \<open>49.99999999999999\<close> is \<open>50 - 2^(- 47)\<close>. The scaled engagement
  rounds to 1, the raw score is 61.5, and the score is 62, where exact arithmetic would
  give 61.\<close>

lemma rounded_score:
  "calculateThreatScore \<lparr>platform = ''github'', username = ''eve'',
       engagement = 7036874417766399 / 140737488355328,
       riskLevel = ''critical'', dataType = None, dateDetected = None\<rparr> = Fin 62"
  by code_simp

text \<open>
  Claim C1 gives the score as
  \<open>min(round((base + min(engagement/1000*20, 20)) * platformFactor + bonus), 100)\<close> with
  the platform factor 1 for a platform that the table does not list. The code reads the
  factor with \<open>platformReachFactors[...] || 1.0\<close> from a plain object: for the platform
  \<open>constructor\<close>, which the table does not list, it reads the inherited built-in instead
  of the default, and the score of a low-risk threat without engagement is \<open>NaN\<close>, where
  the claim gives \<open>min(round((10 + 0) * 1 + 0), 100) = 10\<close>.
\<close>

theorem calculateThreatScore_unlisted_platform_NaN:
  "calculateThreatScore \<lparr>platform = ''constructor'', username = ''eve'', engagement = 0,
       riskLevel = ''low'', dataType = None, dateDetected = None\<rparr> = NaN
   \<and> map_of platformReachFactors (toLowerCase ''constructor'') = None
   \<and> calculateThreatScore \<lparr>platform = ''forum'', username = ''eve'', engagement = 0,
       riskLevel = ''low'', dataType = None, dateDetected = None\<rparr> = Fin 10"
  by code_simp

text \<open>
  Claim C6 says that for every risk level, platform and data type and every engagement
  that is not negative the score lies between 0 and 100 and does not decrease with the
  engagement. For the platform \<open>__proto__\<close> the score is \<open>NaN\<close>, which is neither at
  least 0 nor at most 100, at every engagement.
\<close>

theorem calculateThreatScore_out_of_range:
  "calculateThreatScore \<lparr>platform = ''__proto__'', username = ''eve'', engagement = 2000,
       riskLevel = ''critical'', dataType = Some ''Financial Data'',
       dateDetected = None\<rparr> = NaN
   \<and> \<not> js_ge (calculateThreatScore \<lparr>platform = ''__proto__'', username = ''eve'',
       engagement = 2000, riskLevel = ''critical'', dataType = Some ''Financial Data'',
       dateDetected = None\<rparr>) 0
   \<and> js_min (calculateThreatScore \<lparr>platform = ''__proto__'', username = ''eve'',
       engagement = 2000, riskLevel = ''critical'', dataType = Some ''Financial Data'',
       dateDetected = None\<rparr>) (Fin 100) = NaN"
  by code_simp

section \<open>Properties of the correlation analysis\<close>

lemma obj_entries_single: "obj_entries [p] = [p]"
  by (simp add: obj_entries_def)

lemma obj_entries_Nil: "obj_entries [] = []"
  by (simp add: obj_entries_def)

text \<open>A batch of one threat whose user name and data type are not inherited names yields
  no correlation.\<close>

lemma identifyCorrelations_single_plain:
  assumes "\<not> inherited (username t)"
    and "\<forall>d. dataType t = Some d \<longrightarrow> \<not> inherited d"
  shows "identifyCorrelations [t] = Inr []"
  using assms
  by (simp add: identifyCorrelations_def obj_push_def obj_entries_single obj_entries_Nil
      split: option.splits)

text \<open>
  Claim C8 says that a batch of exactly one threat yields an empty list of correlations.
  The code groups the threats in plain objects. For one threat of the user
  \<open>constructor\<close> the test \<open>!userMap[threat.username]\<close> reads the inherited built-in, no
  array is created, and \<open>userMap[threat.username].push(threat)\<close> throws a \<open>TypeError\<close>:
  no list is returned. A data type that is an inherited name, such as \<open>toString\<close>, does
  the same in the first loop.
\<close>

theorem identifyCorrelations_single_throws:
  "identifyCorrelations [\<lparr>platform = ''reddit'', username = ''constructor'', engagement = 0,
       riskLevel = ''low'', dataType = None, dateDetected = None\<rparr>] = Inl TypeError
   \<and> identifyCorrelations [\<lparr>platform = ''reddit'', username = ''eve'', engagement = 0,
       riskLevel = ''low'', dataType = Some ''toString'', dateDetected = None\<rparr>]
     = Inl TypeError
   \<and> identifyCorrelations [\<lparr>platform = ''reddit'', username = ''eve'', engagement = 0,
       riskLevel = ''low'', dataType = None, dateDetected = None\<rparr>] = Inr []"
  by (simp add: identifyCorrelations_def obj_push_def obj_entries_single obj_entries_Nil
      inherited_def object_prototype_names_def)

section \<open>Properties of the overall risk verdict\<close>
















section \<open>Properties of the report cache\<close>

lemma map_set_keys:
  "set (map fst (map_set k v m)) = insert k (set (map fst m))"
  by (induction m) auto

lemma map_set_distinct:
  "distinct (map fst m) \<Longrightarrow> distinct (map fst (map_set k v m))"
proof (induction m)
  case Nil
  then show ?case by simp
next
  case (Cons p ps)
  then show ?case
    using map_set_keys [of k v ps] by auto
qed

lemma map_delete_distinct:
  "distinct (map fst m) \<Longrightarrow> distinct (map fst (map_delete k m))"
  by (simp add: map_delete_def distinct_map_filter)

lemma sweep_fold:
  "fold (\<lambda>(rid, rep) cache. if old rep then map_delete rid cache else cache) xs m
     = filter (\<lambda>p. \<not> (\<exists>q \<in> set xs. fst q = fst p \<and> old (snd q))) m"
proof (induction xs arbitrary: m)
  case Nil
  then show ?case by simp
next
  case (Cons x xs)
  obtain rid rep where x: "x = (rid, rep)"
    by (cases x)
  show ?case
  proof (cases "old rep")
    case True
    then show ?thesis
      by (auto simp: x Cons.IH map_delete_def intro!: filter_cong)
  next
    case False
    then show ?thesis
      by (auto simp: x Cons.IH intro!: filter_cong)
  qed
qed

lemma sweep_self:
  assumes "distinct (map fst m)"
  shows "filter (\<lambda>p. \<not> (\<exists>q \<in> set m. fst q = fst p \<and> old (snd q))) m
           = filter (\<lambda>p. \<not> old (snd p)) m"
proof (rule filter_cong [OF refl])
  fix p
  assume p: "p \<in> set m"
  have "q = p" if "q \<in> set m" "fst q = fst p" for q
    using assms p that by (auto simp: distinct_map dest: inj_onD)
  then show "(\<not> (\<exists>q \<in> set m. fst q = fst p \<and> old (snd q))) = (\<not> old (snd p))"
    using p by auto
qed

lemma map_of_filter_value:
  assumes "distinct (map fst m)"
  shows "map_of (filter (\<lambda>p. keep (snd p)) m) k
           = (case map_of m k of None \<Rightarrow> None
              | Some v \<Rightarrow> if keep v then Some v else None)"
  using assms
proof (induction m)
  case Nil
  then show ?case by simp
next
  case (Cons p ps)
  have rest: "fst p = k \<Longrightarrow> map_of (filter (\<lambda>p. keep (snd p)) ps) k = None"
    using Cons.prems by (auto simp: map_of_eq_None_iff)
  show ?case
    using Cons rest by (cases p) (auto split: option.splits)
qed

lemma clearOldReports_cache:
  assumes "distinct (map fst (reportCache eng))"
  shows "reportCache (clearOldReports eng now)
           = filter (\<lambda>p. now - generatedAt (snd p) \<le> 2592000000) (reportCache eng)"
  using sweep_self [OF assms, of "\<lambda>rep. generatedAt rep < now - 2592000000"]
  by (simp add: clearOldReports_def sweep_fold not_less) (simp add: algebra_simps)

lemma clearOldReports_lookup:
  assumes "distinct (map fst (reportCache eng))"
  shows "getCachedReport (clearOldReports eng now) rid
           = (case getCachedReport eng rid of None \<Rightarrow> None
              | Some rep \<Rightarrow> if now - generatedAt rep > 2592000000 then None else Some rep)"
  using map_of_filter_value [OF assms, of "\<lambda>rep. now - generatedAt rep \<le> 2592000000" rid]
  by (simp add: getCachedReport_def map_get_def clearOldReports_cache [OF assms] not_le
      split: option.splits)

text \<open>
  Claim C9. \<open>clearOldReports\<close> removes from the cache exactly the reports whose
  \<open>generatedAt\<close> lies more than thirty days before the current time; every younger
  report stays, unchanged and in its place, and nothing else of the engine changes. A
  report of age 0 is therefore kept, and a report older than thirty days is dropped.
\<close>

theorem clearOldReports_exact:
  assumes "distinct (map fst (reportCache eng))"
  shows "reportCache (clearOldReports eng now)
           = filter (\<lambda>p. now - generatedAt (snd p) \<le> 2592000000) (reportCache eng)
       \<and> getCachedReport (clearOldReports eng now) rid
           = (case getCachedReport eng rid of None \<Rightarrow> None
              | Some rep \<Rightarrow> if now - generatedAt rep > 2592000000 then None else Some rep)
       \<and> threatDatabase (clearOldReports eng now) = threatDatabase eng
       \<and> engine_metrics (clearOldReports eng now) = engine_metrics eng"
  using clearOldReports_cache [OF assms] clearOldReports_lookup [OF assms]
  by (simp add: clearOldReports_def)

theorem clearOldReports_exact_witness:
  "distinct (map fst [(1000 :: int, example_report 1000 1000),
                      (5000000000, example_report 5000000000 5000000000)])
   \<and> reportCache (clearOldReports
        (new_engine\<lparr>reportCache := [(1000, example_report 1000 1000),
                       (5000000000, example_report 5000000000 5000000000)]\<rparr>) 5000000000)
      = [(5000000000, example_report 5000000000 5000000000)]"
  using clearOldReports_exact [of "new_engine\<lparr>reportCache :=
           [(1000, example_report 1000 1000),
            (5000000000, example_report 5000000000 5000000000)]\<rparr>" 5000000000 1000]
  by (simp add: example_report_def)

text \<open>The invariant of the cache, one entry per identifier, holds at the start and is kept
  by both operations that write the cache.\<close>

lemma new_engine_distinct: "distinct (map fst (reportCache new_engine))"
  by (simp add: new_engine_def)

lemma generateThreatReport_distinct:
  assumes "distinct (map fst (reportCache eng))"
    and "generateThreatReport eng n1 n2 threats tf = Inr (rep, eng')"
  shows "distinct (map fst (reportCache eng'))"
  using assms by (auto simp: generateThreatReport_def Let_def map_set_distinct split: sum.splits)

lemma clearOldReports_distinct:
  assumes "distinct (map fst (reportCache eng))"
  shows "distinct (map fst (reportCache (clearOldReports eng now)))"
  by (simp add: clearOldReports_def sweep_fold assms distinct_map_filter)

lemma map_set_lookup: "map_of (map_set k v m) k = Some v"
  by (induction m) auto

text \<open>A sweep that follows the generation of a report within thirty days keeps it.\<close>

lemma generate_then_sweep:
  assumes "distinct (map fst (reportCache eng))"
    and "generateThreatReport eng now_id now_date threats tf = Inr (rep, eng')"
    and "now - now_date \<le> 2592000000"
  shows "getCachedReport (clearOldReports eng' now) now_id = Some rep"
proof -
  have rep: "generatedAt rep = now_date"
    and cache: "reportCache eng' = map_set now_id rep (reportCache eng)"
    using assms(2) by (auto simp: generateThreatReport_def Let_def split: sum.splits)
  have "getCachedReport eng' now_id = Some rep"
    by (simp add: getCachedReport_def map_get_def cache map_set_lookup)
  then show ?thesis
    using clearOldReports_lookup [OF generateThreatReport_distinct [OF assms(1,2)], of now now_id]
      rep assms(3)
    by simp
qed

section \<open>The empty batch\<close>

text \<open>
  Claim C2 asks that \<open>generateThreatReport\<close> on an empty batch return a report with
  \<open>totalThreats = 0\<close> and no \<open>NaN\<close> in the summary or the risk assessment. On the
  empty batch the average of the summary and the score of the risk assessment are
  \<open>0 / 0\<close>, which is \<open>NaN\<close>, the maximum is minus infinity, and the timeline analysis
  reduces an empty array of days without an initial value, so that the call throws and
  no report is returned or cached.
\<close>

theorem generateThreatReport_empty_batch:
  "generateThreatReport eng now_id now_date [] tf = Inl TypeError
   \<and> totalThreats (make_summary []) = 0
   \<and> averageThreatScore (make_summary []) = NaN
   \<and> score (assessOverallRisk []) = NaN
   \<and> maxScore (assessOverallRisk []) = NegInf"
  by (simp add: generateThreatReport_def analyzeThreatPatterns_def identifyCorrelations_def
      analyzeTimeline_def reduce_peak_def obj_keys_def obj_entries_def make_summary_def
      assessOverallRisk_def js_sum_def js_max_def)

section \<open>Properties of the content analysis\<close>

lemma fold_severity:
  "fold (\<lambda>p acc. if severity p = Critical then acc + 40
                   else if severity p = High then acc + 25
                   else if severity p = Medium then acc + 15
                   else acc) found (s :: nat)
     = s + 40 * length (filter (\<lambda>p. severity p = Critical) found)
         + 25 * length (filter (\<lambda>p. severity p = High) found)
         + 15 * length (filter (\<lambda>p. severity p = Medium) found)"
  by (induction found arbitrary: s) simp_all

lemma fold_kcount:
  "fold (\<lambda>kw sum. sum + kcount kw) kws (s :: nat) = s + sum_list (map kcount kws)"
  by (induction kws arbitrary: s) simp_all

lemma riskScore_closed:
  "riskScore kws found dataTypes =
     40 * length (filter (\<lambda>p. severity p = Critical) found)
     + 25 * length (filter (\<lambda>p. severity p = High) found)
     + 15 * length (filter (\<lambda>p. severity p = Medium) found)
     + min (sum_list (map kcount kws) * 5) 30
     + length dataTypes * 8"
  by (simp add: riskScore_def Let_def fold_severity fold_kcount)

text \<open>
  Claim C3. For every text the risk level of the analysis is the bucket of the score
  \<open>S\<close> made of 40 for each critical pattern that was found, 25 for each high one and 15
  for each medium one (a pattern is one detector that fired), plus
  \<open>min(occurrences * 5, 30)\<close> for the total of keyword occurrences, plus 8 for each
  inferred category: critical from 70, high from 50, medium from 30, low below.
\<close>

theorem analyze_riskLevel_bucket:
  "an_riskLevel (analyzeSocialMediaContent content pf user ts) =
     (let a = analyzeSocialMediaContent content pf user ts;
          S = 40 * length (filter (\<lambda>p. severity p = Critical) (suspiciousElements a))
              + 25 * length (filter (\<lambda>p. severity p = High) (suspiciousElements a))
              + 15 * length (filter (\<lambda>p. severity p = Medium) (suspiciousElements a))
              + min (sum_list (map kcount (matchedKeywords a)) * 5) 30
              + length (dataExposed a) * 8
      in if 70 \<le> S then Critical
         else if 50 \<le> S then High
         else if 30 \<le> S then Medium
         else Low)"
  by (simp add: analyzeSocialMediaContent_def calculateRiskLevel_def Let_def riskScore_closed)

lemma analyze_short_fields:
  "detectSuspiciousPatterns ''password 1.1.1.1''
     = [\<lparr>ptype = IP_ADDRESS, severity = High, matches = [''1.1.1.1''], count = 1\<rparr>]"
  "map kcount (detectKeywords ''password 1.1.1.1'') = [1]"
  "classifyDataExposure ''password 1.1.1.1'' (detectKeywords ''password 1.1.1.1'')
     = [''Authentication Credentials'']"
  by code_simp+

theorem analyze_riskLevel_bucket_witness:
  "an_riskLevel (analyzeSocialMediaContent ''password 1.1.1.1'' None None None) = Medium"
  using analyze_riskLevel_bucket [of "''password 1.1.1.1''" None None None]
  by (simp add: analyzeSocialMediaContent_def Let_def analyze_short_fields)

section \<open>The worked scenario\<close>

lemma concat_map_if: "concat (map (\<lambda>x. if P x then [f x] else []) xs) = map f (filter P xs)"
  by (induction xs) simp_all

lemma detectKeywords_keyword:
  "map keyword (detectKeywords c)
     = filter (\<lambda>kw. str_includes (toLowerCase c) (toLowerCase kw)) monitoredKeywords"
  by (simp add: detectKeywords_def Let_def concat_map_if comp_def)

lemma detectKeywords_kcount:
  "map kcount (detectKeywords c)
     = map (\<lambda>kw. length (match_all [ci_literal kw] c))
         (filter (\<lambda>kw. str_includes (toLowerCase c) (toLowerCase kw)) monitoredKeywords)"
  by (simp add: detectKeywords_def Let_def concat_map_if comp_def)

lemma classify_fold:
  "fold (\<lambda>kw acc. classify_keyword (keyword kw) acc) kws a
     = fold classify_keyword (map keyword kws) a"
  by (simp add: fold_map comp_def)

lemma scenario_keywords:
  "filter (\<lambda>kw. str_includes (toLowerCase scenario_text) (toLowerCase kw)) monitoredKeywords
     = [''API key'', ''database'', ''schema'']"
  by code_simp

lemma scenario_counts:
  "length (match_all [ci_literal ''API key''] scenario_text) = 1"
  "length (match_all [ci_literal ''database''] scenario_text) = 1"
  "length (match_all [ci_literal ''schema''] scenario_text) = 1"
  by code_simp+

lemma scenario_api:
  "match_all api_key_regex scenario_text = [''ABCDEFGHIJKLMNOPQRSTUVWXYZ123456'']"
  by code_simp

lemma scenario_ip: "match_all ip_regex scenario_text = []"
  by code_simp

lemma scenario_email: "match_all email_regex scenario_text = []"
  by code_simp

lemma scenario_cc: "match_all credit_card_regex scenario_text = []"
  by code_simp

lemma scenario_db: "\<not> matches_somewhere database_regex scenario_text"
  by code_simp

lemma scenario_content:
  "\<not> str_includes (toLowerCase scenario_text) ''salary''"
  "\<not> str_includes (toLowerCase scenario_text) ''payment''"
  "\<not> str_includes (toLowerCase scenario_text) ''vulnerability''"
  "\<not> str_includes (toLowerCase scenario_text) ''exploit''"
  "\<not> str_includes (toLowerCase scenario_text) ''project''"
  "\<not> str_includes (toLowerCase scenario_text) ''roadmap''"
  by code_simp+

lemma scenario_classify_steps:
  "classify_keyword ''API key'' [] = [''API Keys/Secrets'']"
  "classify_keyword ''database'' [''API Keys/Secrets'']
     = [''API Keys/Secrets'', ''Database Schema'']"
  "classify_keyword ''schema'' [''API Keys/Secrets'', ''Database Schema'']
     = [''API Keys/Secrets'', ''Database Schema'']"
  by code_simp+

lemma scenario_patterns:
  "detectSuspiciousPatterns scenario_text
     = [\<lparr>ptype = API_KEY, severity = Critical,
         matches = [''ABCDEFGHIJKLMNOPQRSTUVWXYZ123456''], count = 1\<rparr>]"
  by (simp add: detectSuspiciousPatterns_def scenario_api scenario_ip scenario_email
      scenario_cc scenario_db)

lemma scenario_exposed:
  "classifyDataExposure scenario_text (detectKeywords scenario_text)
     = [''API Keys/Secrets'', ''Database Schema'']"
  by (simp add: classifyDataExposure_def classify_fold detectKeywords_keyword
      scenario_keywords scenario_classify_steps scenario_content)

text \<open>
  Claim C7. The text \<open>Our database schema and API key ABCDEFGHIJKLMNOPQRSTUVWXYZ123456
  were leaked\<close> yields keyword matches for database, schema and API key, one structural
  match of the API-key kind, categories that include Database Schema and API Keys/Secrets,
  the accumulated score 40 + 15 + 16 = 71, and the risk level critical.
\<close>

theorem analyze_scenario:
  "map keyword (matchedKeywords (analyzeSocialMediaContent scenario_text pf user ts))
     = [''API key'', ''database'', ''schema'']
   \<and> map kcount (matchedKeywords (analyzeSocialMediaContent scenario_text pf user ts))
     = [1, 1, 1]
   \<and> suspiciousElements (analyzeSocialMediaContent scenario_text pf user ts)
     = [\<lparr>ptype = API_KEY, severity = Critical,
         matches = [''ABCDEFGHIJKLMNOPQRSTUVWXYZ123456''], count = 1\<rparr>]
   \<and> dataExposed (analyzeSocialMediaContent scenario_text pf user ts)
     = [''API Keys/Secrets'', ''Database Schema'']
   \<and> riskScore (matchedKeywords (analyzeSocialMediaContent scenario_text pf user ts))
        (suspiciousElements (analyzeSocialMediaContent scenario_text pf user ts))
        (dataExposed (analyzeSocialMediaContent scenario_text pf user ts)) = 71
   \<and> an_riskLevel (analyzeSocialMediaContent scenario_text pf user ts) = Critical"
  by (simp add: analyzeSocialMediaContent_def Let_def calculateRiskLevel_def riskScore_closed
      detectKeywords_keyword detectKeywords_kcount scenario_keywords scenario_counts
      scenario_patterns scenario_exposed)

theorem analyze_scenario_witness:
  "an_riskLevel (analyzeSocialMediaContent scenario_text None None None) = Critical"
  using analyze_scenario [of None None None]
  by simp

text \<open>
  Claim C4 says that every structural detector that fires lists at most five matches and
  counts all matches in the text. The detector of datastore connections does neither: it
  reports one fixed message and the count 1 however often an engine is named.
\<close>

theorem capped_with_true_count_counterexample:
  "\<not> capped_with_true_count ''mysql oracle''"
  by code_simp

text \<open>
  Claim C4, amended. For every text: the detectors of API-key-like tokens and of email
  addresses, when they fire, list the first five matches at most and count all matches;
  the detectors of IP addresses and of payment-card-like sequences count all matches; the
  detector of datastore connections, when it fires, reports one fixed message and the
  count 1.
\<close>

theorem detectSuspiciousPatterns_reports:
  "\<forall>p \<in> set (detectSuspiciousPatterns content).
     (ptype p = API_KEY \<longrightarrow>
        matches p = take 5 (match_all api_key_regex content) \<and> length (matches p) \<le> 5
        \<and> count p = length (match_all api_key_regex content))
   \<and> (ptype p = EMAIL_ADDRESS \<longrightarrow>
        matches p = take 5 (match_all email_regex content) \<and> length (matches p) \<le> 5
        \<and> count p = length (match_all email_regex content))
   \<and> (ptype p = IP_ADDRESS \<longrightarrow> count p = length (match_all ip_regex content))
   \<and> (ptype p = CREDIT_CARD \<longrightarrow> count p = length (match_all credit_card_regex content))
   \<and> (ptype p = DATABASE_CONNECTION \<longrightarrow>
        count p = 1 \<and> matches p = [''Potential database credentials found''])"
  by (auto simp: detectSuspiciousPatterns_def Let_def)

lemma detect_mail_example:
  "detectSuspiciousPatterns ''a@b.io''
     = [\<lparr>ptype = EMAIL_ADDRESS, severity = Medium, matches = [''a@b.io''], count = 1\<rparr>]"
  "match_all email_regex ''a@b.io'' = [''a@b.io'']"
  by code_simp+

theorem detectSuspiciousPatterns_reports_witness:
  "\<lparr>ptype = EMAIL_ADDRESS, severity = Medium, matches = [''a@b.io''], count = 1\<rparr>
     \<in> set (detectSuspiciousPatterns ''a@b.io'')
   \<and> length (match_all email_regex ''a@b.io'') = 1"
  using detectSuspiciousPatterns_reports [of "''a@b.io''"]
  by (simp add: detect_mail_example)

section \<open>The caller's array after a report of the service\<close>

lemma severity_key_sorted:
  "sorted_wrt (\<lambda>a b. severityMap (an_riskLevel b) \<le> severityMap (an_riskLevel a))
     (sort_key (\<lambda>a. - int (severityMap (an_riskLevel a))) xs)"
proof -
  have "sorted (map (\<lambda>a. - int (severityMap (an_riskLevel a)))
                  (sort_key (\<lambda>a. - int (severityMap (an_riskLevel a))) xs))"
    by (rule sorted_sort_key)
  then show ?thesis
    by (simp add: sorted_map)
qed

text \<open>
  Claim C10. \<open>identifyTopThreats\<close> of the service sorts the array it is given, not a
  copy: after \<open>generateThreatReport\<close> the caller's array holds the same analyses, stably
  sorted into descending rank of risk level, and no other array has changed.
\<close>

theorem service_generateThreatReport_sorts_in_place:
  "snd (service_generateThreatReport st r now tf) r
     = sort_key (\<lambda>a. - int (severityMap (an_riskLevel a))) (st r)
   \<and> sorted_wrt (\<lambda>a b. severityMap (an_riskLevel b) \<le> severityMap (an_riskLevel a))
       (snd (service_generateThreatReport st r now tf) r)
   \<and> mset (snd (service_generateThreatReport st r now tf) r) = mset (st r)
   \<and> (\<forall>r'. r' \<noteq> r \<longrightarrow> snd (service_generateThreatReport st r now tf) r' = st r')"
proof -
  have "snd (service_generateThreatReport st r now tf) = array_sort st r"
    by (simp add: service_generateThreatReport_def service_identifyTopThreats_def Let_def)
  then show ?thesis
    using severity_key_sorted [of "st r"] by (simp add: array_sort_def)
qed

lemma example_analyses:
  "an_riskLevel (analyzeSocialMediaContent ''ok'' None None None) = Low"
  "an_riskLevel (analyzeSocialMediaContent ''mysql oracle'' None None None) = Medium"
  by code_simp+

theorem service_generateThreatReport_sorts_in_place_witness:
  "snd (service_generateThreatReport
          (\<lambda>r. if r = 0 then [analyzeSocialMediaContent ''ok'' None None None,
                               analyzeSocialMediaContent ''mysql oracle'' None None None]
                else []) 0 0 ''24h'') 0
     = [analyzeSocialMediaContent ''mysql oracle'' None None None,
        analyzeSocialMediaContent ''ok'' None None None]"
  using service_generateThreatReport_sorts_in_place
    [of "\<lambda>r. if r = 0 then [analyzeSocialMediaContent ''ok'' None None None,
                               analyzeSocialMediaContent ''mysql oracle'' None None None]
              else []" 0 0 "''24h''"]
  by (simp add: example_analyses)

end
